theory Spec2Isabelle
  imports Complex_Main
begin

section \<open>Strings\<close>

text \<open>
  A Python \<open>str\<close> is a sequence of code points. It is modelled as a \<open>string\<close> whose
  characters are the code points below 256 (ASCII and Latin-1), so \<open>length\<close> counts
  what Python's \<open>len\<close> counts. The string methods the program calls are written out
  below with the behaviour of CPython 3 on such strings; the pandas accessors
  \<open>.str.strip()\<close> and \<open>.str.zfill(5)\<close> apply \<open>str.strip\<close> and \<open>str.zfill\<close> to
  each element, and \<open>.str.split(c).str[0]\<close> with a one-character \<open>c\<close> cuts at the
  first occurrence of that character.
\<close>

definition isspace :: "char \<Rightarrow> bool" where
  \<comment> \<open>the code points below 256 that \<open>str.strip()\<close> removes\<close>
  "isspace c =
     (let n = (of_char c :: nat)
      in (9 \<le> n \<and> n \<le> 13) \<or> (28 \<le> n \<and> n \<le> 32) \<or> n = 133 \<or> n = 160)"

definition lower_char :: "char \<Rightarrow> char" where
  "lower_char c =
     (let n = (of_char c :: nat)
      in if (65 \<le> n \<and> n \<le> 90) \<or> (192 \<le> n \<and> n \<le> 222 \<and> n \<noteq> 215)
         then char_of (n + 32) else c)"

definition lower :: "string \<Rightarrow> string" where
  \<comment> \<open>\<open>s.lower()\<close>\<close>
  "lower s = map lower_char s"

definition strip :: "string \<Rightarrow> string" where
  \<comment> \<open>\<open>s.strip()\<close>: whitespace is removed at both ends\<close>
  "strip s = rev (dropWhile isspace (rev (dropWhile isspace s)))"

definition split_first :: "char \<Rightarrow> string \<Rightarrow> string" where
  \<comment> \<open>\<open>s.split(c)[0]\<close>: the part before the first \<open>c\<close>, all of \<open>s\<close> when there is none\<close>
  "split_first c s = takeWhile (\<lambda>x. x \<noteq> c) s"

definition zfill :: "nat \<Rightarrow> string \<Rightarrow> string" where
  \<comment> \<open>\<open>s.zfill(w)\<close>: zeros are inserted after a leading sign; nothing is cut off\<close>
  "zfill w s =
     (if w \<le> length s then s
      else (case s of
              [] \<Rightarrow> replicate w CHR ''0''
            | c # t \<Rightarrow>
                if c = CHR ''+'' \<or> c = CHR ''-''
                then c # replicate (w - length s) CHR ''0'' @ t
                else replicate (w - length s) CHR ''0'' @ s))"

fun startswith :: "string \<Rightarrow> string \<Rightarrow> bool" where
  "startswith s [] = True"
| "startswith [] (c # cs) = False"
| "startswith (x # xs) (c # cs) = (x = c \<and> startswith xs cs)"

fun contains :: "string \<Rightarrow> string \<Rightarrow> bool" where
  \<comment> \<open>\<open>c in s\<close> for strings: \<open>c\<close> occurs in \<open>s\<close> as a contiguous piece\<close>
  "contains [] c = (c = [])"
| "contains (x # xs) c = (startswith (x # xs) c \<or> contains xs c)"

section \<open>ZIP normalisation\<close>

text \<open>
  \<^verbatim>\<open>
  def clean_zip_codes(series):
      s = series.astype(str).str.split('.').str[0]
      s = s.str.split('-').str[0]
      s = s.str.strip().str.zfill(5)
      return s
  \<close>
  \<open>clean_zip\<close> is what the three lines do to one element once \<open>astype(str)\<close> has
  made it a string.
\<close>

definition clean_zip :: "string \<Rightarrow> string" where
  "clean_zip raw =
     (let s = split_first CHR ''.'' raw;
          s = split_first CHR ''-'' s;
          s = zfill 5 (strip s)
      in s)"

text \<open>
  \<^verbatim>\<open>
  df['zip_code'] = df['zip_code'].astype(str).str.zfill(5)
  \<close>
  \<open>load_key\<close> is what \<open>load_census_data\<close> does to one element of the reference
  table's key column once \<open>astype(str)\<close> has made it a string.
\<close>

definition load_key :: "string \<Rightarrow> string" where
  "load_key raw = zfill 5 raw"

section \<open>Column detection\<close>

definition candidates :: "string list" where
  "candidates =
     [''zip'', ''zipcode'', ''zip code'', ''zip_code'',
      ''postal'', ''postal code'', ''postal_code'', ''postcode'', ''post_code'',
      ''billing zip'', ''billing_zip'', ''billing postal'', ''billing_postal_code'',
      ''shipping zip'', ''shipping_zip'', ''shipping postal'', ''shipping_postal_code'']"

definition exact_match :: "string \<Rightarrow> bool" where
  \<comment> \<open>\<open>str(col).lower().strip() in candidates\<close>\<close>
  "exact_match col = (strip (lower col) \<in> set candidates)"

definition fuzzy_match :: "string \<Rightarrow> bool" where
  \<comment> \<open>the inner loop: some candidate \<open>c\<close> has \<open>c in col_lower\<close>\<close>
  "fuzzy_match col = (\<exists>c \<in> set candidates. contains (lower col) c)"

definition find_zip_column :: "string list \<Rightarrow> string option" where
  \<comment> \<open>the argument is \<open>df.columns\<close>; \<open>None\<close> is Python's \<open>None\<close>\<close>
  "find_zip_column cols =
     (case find exact_match cols of
        Some col \<Rightarrow> Some col
      | None \<Rightarrow> find fuzzy_match cols)"

section \<open>Tables\<close>

text \<open>
  A pandas \<open>DataFrame\<close> is modelled column-wise, as pandas stores it: the length of
  its index and the list of its labelled columns, in column order. A cell is a missing
  value (pandas' \<open>NaN\<close>), a string, an integer or a float; a float cell carries its
  value as a rational. The tables the program receives from \<open>read_csv\<close> and
  \<open>read_excel\<close> have pairwise distinct labels and columns as long as the index
  (\<open>wf_frame\<close>). The operations on tables are those of pandas 1.5 to 2.x, where
  \<open>astype(str)\<close> turns a missing value into the text \<open>nan\<close>.
\<close>

datatype cell = NaN | Str string | IntCell int | FloatCell rat

type_synonym series = "cell list"

record frame =
  nrows :: nat
  cols :: "(string \<times> series) list"

definition labels :: "frame \<Rightarrow> string list" where
  \<comment> \<open>\<open>df.columns\<close>\<close>
  "labels f = map fst (cols f)"

definition wf_frame :: "frame \<Rightarrow> bool" where
  "wf_frame f = (distinct (labels f) \<and> list_all (\<lambda>(l, c). length c = nrows f) (cols f))"

definition notna :: "cell \<Rightarrow> bool" where
  "notna c = (c \<noteq> NaN)"

definition cell_at :: "series \<Rightarrow> nat \<Rightarrow> cell" where
  \<comment> \<open>the cell of a column in a given row; a row the column does not reach holds nothing\<close>
  "cell_at c i = (if i < length c then c ! i else NaN)"

definition column :: "frame \<Rightarrow> string \<Rightarrow> series" where
  \<comment> \<open>\<open>df[l]\<close> for a label that names one column\<close>
  "column f l = (case map_of (cols f) l of Some c \<Rightarrow> c | None \<Rightarrow> [])"

definition select :: "frame \<Rightarrow> string \<Rightarrow> series list" where
  \<comment> \<open>\<open>df[l]\<close> in general: every column that carries the label, none when it is missing\<close>
  "select f l = map snd (filter (\<lambda>(l', c). l' = l) (cols f))"

definition assign :: "frame \<Rightarrow> string \<Rightarrow> series \<Rightarrow> frame" where
  \<comment> \<open>\<open>df[l] = s\<close>: an existing column is replaced in place, a new one is appended\<close>
  "assign f l s =
     (if l \<in> set (labels f)
      then f\<lparr>cols := map (\<lambda>(l', c). if l' = l then (l', s) else (l', c)) (cols f)\<rparr>
      else f\<lparr>cols := cols f @ [(l, s)]\<rparr>)"

definition rename :: "(string \<times> string) list \<Rightarrow> frame \<Rightarrow> frame" where
  \<comment> \<open>\<open>df.rename(columns=m)\<close>: labels that \<open>m\<close> does not mention stay\<close>
  "rename m f =
     f\<lparr>cols := map (\<lambda>(l, c). (case map_of m l of Some l' \<Rightarrow> l' | None \<Rightarrow> l, c)) (cols f)\<rparr>"

definition drop_columns :: "string list \<Rightarrow> frame \<Rightarrow> frame" where
  \<comment> \<open>\<open>df.drop(columns=[c for c in ds if c in df.columns])\<close>\<close>
  "drop_columns ds f = f\<lparr>cols := filter (\<lambda>(l, c). l \<notin> set ds) (cols f)\<rparr>"

fun digits :: "nat \<Rightarrow> string" where
  "digits n =
     (if n < 10 then [char_of (48 + n)]
      else digits (n div 10) @ [char_of (48 + n mod 10)])"

declare digits.simps [simp del]

definition str_int :: "int \<Rightarrow> string" where
  \<comment> \<open>\<open>str(i)\<close> for an integer\<close>
  "str_int i = (if i < 0 then CHR ''-'' # digits (nat (- i)) else digits (nat i))"

definition astype_str :: "(rat \<Rightarrow> string) \<Rightarrow> cell \<Rightarrow> string" where
  \<comment> \<open>one element of \<open>series.astype(str)\<close>: a missing value becomes the text \<open>nan\<close>.
      How Python prints a float is not part of the program; it is the parameter
      \<open>float_str\<close>.\<close>
  "astype_str float_str c =
     (case c of
        NaN \<Rightarrow> ''nan''
      | Str s \<Rightarrow> s
      | IntCell i \<Rightarrow> str_int i
      | FloatCell q \<Rightarrow> float_str q)"

definition clean_zip_codes :: "(rat \<Rightarrow> string) \<Rightarrow> series \<Rightarrow> series" where
  "clean_zip_codes float_str series = map (\<lambda>c. Str (clean_zip (astype_str float_str c))) series"

section \<open>The reference table\<close>

text \<open>
  Modelled from the spec: the file \<open>census_reference.csv\<close> is not among the sources.
  Its rows are taken as a parameter, with the four columns the specification lists
  and the program reads, in that order: \<open>zip_code\<close> (any cell, not necessarily
  padded), \<open>median_income\<close> and \<open>median_age\<close> (a number or absent) and \<open>population\<close>
  (an integer).
\<close>

record ref_row =
  zip_code :: cell
  median_income :: "rat option"
  median_age :: "rat option"
  population :: int

definition number :: "rat option \<Rightarrow> cell" where
  "number v = (case v of None \<Rightarrow> NaN | Some q \<Rightarrow> FloatCell q)"

definition ref_labels :: "string list" where
  "ref_labels = [''zip_code'', ''median_income'', ''median_age'', ''population'']"

text \<open>
  \<^verbatim>\<open>
  def load_census_data():
      try:
          df = pd.read_csv("census_reference.csv")
          df['zip_code'] = df['zip_code'].astype(str).str.zfill(5)
          return df
      except FileNotFoundError:
          return None
  \<close>
  The argument is the content of the file, \<open>None\<close> when the file does not exist.
\<close>

definition load_census_data :: "(rat \<Rightarrow> string) \<Rightarrow> ref_row list option \<Rightarrow> ref_row list option" where
  "load_census_data float_str file =
     (case file of
        None \<Rightarrow> None
      | Some df \<Rightarrow>
          Some (map (\<lambda>r. r\<lparr>zip_code := Str (load_key (astype_str float_str (zip_code r)))\<rparr>) df))"

section \<open>The join\<close>

text \<open>
  \<^verbatim>\<open>
  merged = pd.merge(df, ref_df, left_on='__join_zip', right_on='zip_code', how='left')
  \<close>
  A left join keeps the left rows in their order. A left row whose key equals the key
  of reference rows is repeated once for each of them, in the order of the reference
  table; a left row with no partner appears once, with missing values in the
  reference columns. \<open>left_join\<close> lists, for each row of the result, the index of
  its left row and its partner. Labels that occur on both sides get the suffixes
  \<open>_x\<close> and \<open>_y\<close>, the key columns included since their names differ. (pandas 2
  refuses a join whose suffixing makes two labels of one table equal, as for an input
  with both headers \<open>zip_code\<close> and \<open>zip_code_x\<close>; for such headers the model
  returns the table with both columns.)
\<close>

definition left_join :: "series \<Rightarrow> ref_row list \<Rightarrow> (nat \<times> ref_row option) list" where
  "left_join lkeys ref =
     concat (map (\<lambda>(i, k).
        (case filter (\<lambda>r. zip_code r = k) ref of
           [] \<Rightarrow> [(i, None)]
         | m # ms \<Rightarrow> map (\<lambda>r. (i, Some r)) (m # ms)))
       (enumerate 0 lkeys))"

definition take_left :: "(nat \<times> ref_row option) list \<Rightarrow> series \<Rightarrow> series" where
  "take_left ps c = map (\<lambda>(i, m). cell_at c i) ps"

definition take_right :: "(nat \<times> ref_row option) list \<Rightarrow> (ref_row \<Rightarrow> cell) \<Rightarrow> series" where
  "take_right ps field = map (\<lambda>(i, m). case m of None \<Rightarrow> NaN | Some r \<Rightarrow> field r) ps"

definition suffixed :: "string list \<Rightarrow> string \<Rightarrow> string \<Rightarrow> string" where
  "suffixed others sfx l = (if l \<in> set others then l @ sfx else l)"

definition merge_left :: "frame \<Rightarrow> ref_row list \<Rightarrow> string \<Rightarrow> frame" where
  "merge_left left ref left_on =
     (let ps = left_join (column left left_on) ref
      in \<lparr>nrows = length ps,
          cols =
            map (\<lambda>(l, c). (suffixed ref_labels ''_x'' l, take_left ps c)) (cols left) @
            map (\<lambda>(l, field). (suffixed (labels left) ''_y'' l, take_right ps field))
              (zip ref_labels
                [zip_code, \<lambda>r. number (median_income r), \<lambda>r. number (median_age r),
                 \<lambda>r. IntCell (population r)])\<rparr>)"

section \<open>The processing phase\<close>

text \<open>
  \<^verbatim>\<open>
  zip_col = find_zip_column(df)
  if not zip_col:
      st.error(APP_CONFIG["error_msg"]); st.stop()
  df['__join_zip'] = clean_zip_codes(df[zip_col])
  ref_df = census_df.copy()
  if exclude_low_pop:
      ref_df = ref_df[ref_df['population'] >= 100]
  merged = pd.merge(df, ref_df, left_on='__join_zip', right_on='zip_code', how='left')
  merged = merged.rename(columns={'median_income': 'Estimated household income',
      'median_age': 'Median age', 'population': 'Zip population'})
  cols_to_drop = ['__join_zip', 'zip_code']
  final_df = merged.drop(columns=[c for c in cols_to_drop if c in merged.columns])
  total_rows = len(final_df)
  matched_rows = final_df['Estimated household income'].notna().sum()
  match_rate = (matched_rows / total_rows) if total_rows > 0 else 0
  avg_income = final_df['Estimated household income'].mean()
  avg_age = final_df['Median age'].mean()
  \<close>
  A selection by a label that no column carries raises \<open>KeyError\<close>, which ends the
  request. A label that several columns carry selects them all, and the count is then
  one number per column. The quotient is Python's float division, modelled as the
  exact rational. The two means are floating-point numbers and are left out; of the
  lines that compute them the model keeps the \<open>KeyError\<close> of the selection.
\<close>

datatype error = NoZipColumn | KeyError string | NotScalar

datatype 'a metric = Scalar 'a | PerColumn "'a list"

fun map_metric :: "('a \<Rightarrow> 'b) \<Rightarrow> 'a metric \<Rightarrow> 'b metric" where
  "map_metric f (Scalar x) = Scalar (f x)"
| "map_metric f (PerColumn xs) = PerColumn (map f xs)"

record result =
  final_df :: frame
  zip_col :: string
  total_rows :: nat
  matched_rows :: "nat metric"
  match_rate :: "rat metric"

definition ref_rows :: "bool \<Rightarrow> ref_row list \<Rightarrow> ref_row list" where
  "ref_rows exclude_low_pop census_df =
     (if exclude_low_pop then filter (\<lambda>r. population r \<ge> 100) census_df else census_df)"

definition renaming :: "(string \<times> string) list" where
  "renaming =
     [(''median_income'', ''Estimated household income''),
      (''median_age'', ''Median age''),
      (''population'', ''Zip population'')]"

definition cols_to_drop :: "string list" where
  "cols_to_drop = [''__join_zip'', ''zip_code'']"

definition notna_sum :: "series list \<Rightarrow> nat metric" where
  \<comment> \<open>\<open>.notna().sum()\<close> of a selection that is not empty\<close>
  "notna_sum cs =
     (case cs of
        [c] \<Rightarrow> Scalar (length (filter notna c))
      | _ \<Rightarrow> PerColumn (map (\<lambda>c. length (filter notna c)) cs))"

definition process :: "(rat \<Rightarrow> string) \<Rightarrow> bool \<Rightarrow> frame \<Rightarrow> ref_row list \<Rightarrow> error + result" where
  "process float_str exclude_low_pop df census_df =
     (case find_zip_column (labels df) of
        None \<Rightarrow> Inl NoZipColumn
      | Some zc \<Rightarrow>
          (let df1 = assign df ''__join_zip'' (clean_zip_codes float_str (column df zc));
               ref_df = ref_rows exclude_low_pop census_df;
               merged = merge_left df1 ref_df ''__join_zip'';
               merged = rename renaming merged;
               final = drop_columns cols_to_drop merged;
               total = nrows final
           in if select final ''Estimated household income'' = []
              then Inl (KeyError ''Estimated household income'')
              else if select final ''Median age'' = []
              then Inl (KeyError ''Median age'')
              else
                (let matched = notna_sum (select final ''Estimated household income'')
                 in Inr \<lparr>final_df = final, zip_col = zc, total_rows = total,
                         matched_rows = matched,
                         match_rate =
                           (if total > 0
                            then map_metric (\<lambda>m. of_nat m / of_nat total) matched
                            else Scalar 0)\<rparr>)))"

section \<open>The display phase\<close>

text \<open>
  \<^verbatim>\<open>
  metric_cols = ['Estimated household income', 'Median age', 'Zip population']
  cols = list(final_df.columns)
  for c in metric_cols + [zip_col]:
      if c in cols: cols.remove(c)
  display_order = [zip_col] + metric_cols + cols
  final_df = final_df[display_order]
  \<close>
  Before these lines the scorecards format the match rate and test the two means with
  \<open>if pd.notna(...)\<close>, which raises when a metric is one number per column, that is
  when one of the two selected labels is carried by several columns. Selecting a list
  of labels raises \<open>KeyError\<close> when one of them is missing.
\<close>

definition metric_cols :: "string list" where
  "metric_cols = [''Estimated household income'', ''Median age'', ''Zip population'']"

definition display_order :: "string \<Rightarrow> string list \<Rightarrow> string list" where
  "display_order zc columns = zc # metric_cols @ fold remove1 (metric_cols @ [zc]) columns"

definition reindex :: "frame \<Rightarrow> string list \<Rightarrow> error + frame" where
  \<comment> \<open>\<open>df[ls]\<close> for a list of labels\<close>
  "reindex f ls =
     (case find (\<lambda>l. l \<notin> set (labels f)) ls of
        Some l \<Rightarrow> Inl (KeyError l)
      | None \<Rightarrow> Inr (f\<lparr>cols := concat (map (\<lambda>l. filter (\<lambda>(l', c). l' = l) (cols f)) ls)\<rparr>))"

definition display :: "result \<Rightarrow> error + frame" where
  "display res =
     (if length (select (final_df res) ''Estimated household income'') \<noteq> 1 \<or>
         length (select (final_df res) ''Median age'') \<noteq> 1
      then Inl NotScalar
      else reindex (final_df res) (display_order (zip_col res) (labels (final_df res))))"

definition enrich :: "(rat \<Rightarrow> string) \<Rightarrow> bool \<Rightarrow> frame \<Rightarrow> ref_row list \<Rightarrow> error + frame" where
  \<comment> \<open>a whole request: the processing phase, then the display phase\<close>
  "enrich float_str exclude_low_pop df census_df =
     (case process float_str exclude_low_pop df census_df of
        Inl e \<Rightarrow> Inl e
      | Inr res \<Rightarrow> display res)"

section \<open>Auxiliary notions for the proofs\<close>

definition zip_core :: "string \<Rightarrow> string" where
  \<comment> \<open>what is left of a raw value after the two cuts and the stripping\<close>
  "zip_core raw = strip (split_first CHR ''-'' (split_first CHR ''.'' raw))"

definition stripped :: "string \<Rightarrow> bool" where
  \<comment> \<open>no whitespace at either end\<close>
  "stripped t = (t = [] \<or> (\<not> isspace (hd t) \<and> \<not> isspace (last t)))"

definition reserved :: "string list" where
  \<comment> \<open>the labels the program itself reads from the joined table or gives to it\<close>
  "reserved =
     [''median_income'', ''median_age'', ''population'',
      ''Estimated household income'', ''Median age'', ''Zip population'']"

definition no_clash :: "frame \<Rightarrow> bool" where
  \<comment> \<open>no header of the input table is one of the reserved labels\<close>
  "no_clash df = list_all (\<lambda>l. l \<notin> set reserved) (labels df)"

definition join_keys :: "(rat \<Rightarrow> string) \<Rightarrow> frame \<Rightarrow> string \<Rightarrow> series" where
  \<comment> \<open>the column \<open>__join_zip\<close>\<close>
  "join_keys float_str df zc = clean_zip_codes float_str (column df zc)"

definition final_frame ::
  "(rat \<Rightarrow> string) \<Rightarrow> bool \<Rightarrow> frame \<Rightarrow> ref_row list \<Rightarrow> string \<Rightarrow> frame" where
  \<comment> \<open>\<open>final_df\<close> as \<open>process\<close> computes it\<close>
  "final_frame float_str exclude_low_pop df census_df zc =
     drop_columns cols_to_drop (rename renaming
       (merge_left (assign df ''__join_zip'' (join_keys float_str df zc))
          (ref_rows exclude_low_pop census_df) ''__join_zip''))"

definition final_label :: "string list \<Rightarrow> string \<Rightarrow> string \<Rightarrow> string" where
  \<comment> \<open>a label after the suffixing of the join and the renaming\<close>
  "final_label others sfx l =
     (case map_of renaming (suffixed others sfx l) of
        Some l' \<Rightarrow> l'
      | None \<Rightarrow> suffixed others sfx l)"



subsection \<open>Example tables\<close>

text \<open>
  The reference rows of the specification's scenarios (\<open>90210\<close>, and \<open>00501\<close> with a
  population of 50), one row without an income, and an input table with a ZIP+4 value,
  a numeric value, a missing value and a value that has no partner.
\<close>

definition example_census :: "ref_row list" where
  "example_census =
     [\<lparr>zip_code = Str ''90210'', median_income = Some 120000, median_age = Some (412 / 10),
        population = 34000\<rparr>,
      \<lparr>zip_code = Str ''00501'', median_income = Some 51000, median_age = Some 30,
        population = 50\<rparr>,
      \<lparr>zip_code = Str ''10001'', median_income = None, median_age = Some 37,
        population = 21000\<rparr>]"

definition example_input :: frame where
  "example_input =
     \<lparr>nrows = 5,
      cols =
        [(''customer_id'', [IntCell 1, IntCell 2, IntCell 3, IntCell 4, IntCell 5]),
         (''email'', [Str ''a@x.org'', Str ''b@x.org'', NaN, Str ''d@x.org'', Str ''e@x.org'']),
         (''zip'', [Str ''90210-1234'', IntCell 501, NaN, Str ''00000'', Str ''10001''])]\<rparr>"

definition example_empty :: frame where
  \<comment> \<open>a table with the headers of the specification's scenario and no rows\<close>
  "example_empty = \<lparr>nrows = 0, cols = [(''customer_id'', []), (''email'', []), (''zip'', [])]\<rparr>"

definition example_float_str :: "rat \<Rightarrow> string" where
  \<comment> \<open>a stand-in for Python's printing of floats; the example input holds no float\<close>
  "example_float_str q = ''0.0''"

section \<open>Facts about the string operations\<close>

lemma last_dropWhile_ne: "dropWhile P xs \<noteq> [] \<Longrightarrow> last (dropWhile P xs) = last xs"
  by (induction xs) (auto split: if_splits)

lemma stripped_strip: "stripped (strip s)"
proof (cases "strip s = []")
  case True
  then show ?thesis by (simp add: stripped_def)
next
  case False
  define a where "a = dropWhile isspace s"
  define b where "b = dropWhile isspace (rev a)"
  have sb: "strip s = rev b" by (simp add: strip_def a_def b_def)
  with False have bne: "b \<noteq> []" by simp
  then have ane: "a \<noteq> []" by (auto simp: b_def)
  have "\<not> isspace (hd b)" using bne unfolding b_def by (rule hd_dropWhile)
  moreover have "\<not> isspace (hd a)" using ane unfolding a_def by (rule hd_dropWhile)
  moreover have "last b = hd a"
    using bne ane last_dropWhile_ne[of isspace "rev a"] by (simp add: b_def last_rev)
  ultimately show ?thesis using bne by (simp add: stripped_def sb hd_rev last_rev)
qed

lemma strip_id: "stripped t \<Longrightarrow> strip t = t"
proof (cases "t = []")
  case True
  then show ?thesis by (simp add: strip_def)
next
  case False
  assume "stripped t"
  with False have h: "\<not> isspace (hd t)" and l: "\<not> isspace (last t)"
    by (auto simp: stripped_def)
  from False h have front: "dropWhile isspace t = t" by (cases t) auto
  from False l have rear: "dropWhile isspace (rev t) = rev t"
    by (cases "rev t") (auto simp: last_rev[symmetric] hd_rev)
  show ?thesis by (simp add: strip_def front rear)
qed

lemma zero_not_space: "\<not> isspace CHR ''0''"
  by (simp add: isspace_def)

lemma stripped_zfill: "stripped t \<Longrightarrow> stripped (zfill w t)"
  by (cases t)
    (auto simp: stripped_def zfill_def zero_not_space hd_append last_append split: if_splits)

lemma length_zfill: "length (zfill w s) = max w (length s)"
  by (cases s) (auto simp: zfill_def)

lemma zfill_long: "w \<le> length s \<Longrightarrow> zfill w s = s"
  by (simp add: zfill_def)

lemma set_zfill: "set (zfill w s) \<subseteq> insert CHR ''0'' (set s)"
  by (cases s) (auto simp: zfill_def split: if_splits)

lemma set_zfill_sup: "set s \<subseteq> set (zfill w s)"
  by (cases s) (auto simp: zfill_def split: if_splits)

lemma set_strip: "set (strip s) \<subseteq> set s"
  unfolding strip_def by (metis set_rev set_dropWhileD subsetI)

lemma split_first_notin: "c \<notin> set (split_first c s)"
  unfolding split_first_def by (auto dest: set_takeWhileD)

lemma set_split_first: "set (split_first c s) \<subseteq> set s"
  unfolding split_first_def by (auto dest: set_takeWhileD)

lemma split_first_id: "c \<notin> set s \<Longrightarrow> split_first c s = s"
  unfolding split_first_def by (auto intro: takeWhile_eq_all_conv[THEN iffD2])

lemma clean_zip_chars:
  "CHR ''.'' \<notin> set (clean_zip x)" "CHR ''-'' \<notin> set (clean_zip x)"
proof -
  let ?a = "split_first CHR ''.'' x"
  let ?b = "split_first CHR ''-'' ?a"
  have dot: "CHR ''.'' \<notin> set ?b"
    using split_first_notin[of "CHR ''.''" x] set_split_first[of "CHR ''-''" ?a] by blast
  have dash: "CHR ''-'' \<notin> set ?b" by (rule split_first_notin)
  have "set (clean_zip x) \<subseteq> insert CHR ''0'' (set ?b)"
    using set_zfill[of 5 "strip ?b"] set_strip[of ?b] by (auto simp: clean_zip_def)
  with dot dash show "CHR ''.'' \<notin> set (clean_zip x)" "CHR ''-'' \<notin> set (clean_zip x)"
    by auto
qed

lemma clean_zip_stripped: "stripped (clean_zip x)"
  by (simp add: clean_zip_def stripped_zfill stripped_strip)

lemma length_clean_zip_ge: "5 \<le> length (clean_zip x)"
  by (simp add: clean_zip_def length_zfill)

lemma count_dropWhile: "length (filter P (dropWhile P xs)) \<le> length (filter P xs)"
  by (induction xs) auto

lemma count_dropWhile_less:
  "dropWhile P xs \<noteq> xs \<Longrightarrow> length (filter P (dropWhile P xs)) < length (filter P xs)"
  using count_dropWhile[of P] by (cases xs) (auto simp: le_imp_less_Suc split: if_splits)

lemma count_strip_less:
  assumes "strip s \<noteq> s"
  shows "length (filter isspace (strip s)) < length (filter isspace s)"
proof -
  define a where "a = dropWhile isspace s"
  have eq: "length (filter isspace (strip s))
      = length (filter isspace (dropWhile isspace (rev a)))"
    unfolding strip_def a_def by (simp flip: rev_filter)
  have ra: "length (filter isspace (rev a)) = length (filter isspace a)"
    by (simp flip: rev_filter)
  show ?thesis
  proof (cases "a = s")
    case True
    with assms have "dropWhile isspace (rev a) \<noteq> rev a"
      unfolding strip_def a_def by (metis rev_rev_ident)
    from count_dropWhile_less[OF this] show ?thesis using eq ra True by simp
  next
    case False
    then have "length (filter isspace a) < length (filter isspace s)"
      unfolding a_def by (rule count_dropWhile_less)
    moreover have "length (filter isspace (dropWhile isspace (rev a)))
        \<le> length (filter isspace (rev a))"
      by (rule count_dropWhile)
    ultimately show ?thesis using eq ra by simp
  qed
qed

lemma count_zfill: "length (filter isspace (zfill w s)) = length (filter isspace s)"
  by (cases s) (auto simp: zfill_def zero_not_space)

lemma find_append_first:
  "\<forall>x\<in>set pre. \<not> P x \<Longrightarrow> P c \<Longrightarrow> find P (pre @ c # post) = Some c"
  by (induction pre) auto

section \<open>The reference loader against the input normaliser\<close>

text \<open>
  C1, as the specification states it: every raw key is transformed by the reference
  loader exactly as a user ZIP value is. The loader only pads; it neither cuts at
  \<open>.\<close> or \<open>-\<close> nor strips, so the raw key \<open>90210-1234\<close> is loaded unchanged while
  the same text in the input column becomes \<open>90210\<close>, and the text \<open>501.0\<close> of a
  key column read as floats stays \<open>501.0\<close> while the input side makes it \<open>00501\<close>.
\<close>

theorem load_key_differs_from_clean_zip:
  "load_key ''90210-1234'' = ''90210-1234'' \<and> clean_zip ''90210-1234'' = ''90210'' \<and>
   load_key ''90210-1234'' \<noteq> clean_zip ''90210-1234'' \<and>
   load_key ''501.0'' = ''501.0'' \<and> clean_zip ''501.0'' = ''00501''"
  by code_simp

text \<open>
  C1, amended: the reference loader applies only the last step of the normalisation
  (left-padding with \<open>0\<close> to 5 characters). Its result equals the normalisation of
  the same raw text exactly when the text contains no \<open>.\<close>, no \<open>-\<close> and has no
  whitespace at either end.
\<close>

theorem load_key_eq_clean_zip_iff:
  "load_key s = clean_zip s \<longleftrightarrow>
     CHR ''.'' \<notin> set s \<and> CHR ''-'' \<notin> set s \<and> strip s = s"
proof
  assume "CHR ''.'' \<notin> set s \<and> CHR ''-'' \<notin> set s \<and> strip s = s"
  then show "load_key s = clean_zip s"
    by (simp add: load_key_def clean_zip_def split_first_id)
next
  assume e: "load_key s = clean_zip s"
  have sub: "set s \<subseteq> set (clean_zip s)"
    using set_zfill_sup[of s 5] e by (simp add: load_key_def)
  have d: "CHR ''.'' \<notin> set s" and m: "CHR ''-'' \<notin> set s"
    using sub clean_zip_chars[of s] by auto
  then have c: "clean_zip s = zfill 5 (strip s)"
    by (simp add: clean_zip_def split_first_id)
  have "strip s = s"
  proof (rule ccontr)
    assume "strip s \<noteq> s"
    from count_strip_less[OF this]
    have "length (filter isspace (zfill 5 (strip s))) < length (filter isspace (zfill 5 s))"
      by (simp add: count_zfill)
    with e c show False by (simp add: load_key_def)
  qed
  with d m show "CHR ''.'' \<notin> set s \<and> CHR ''-'' \<notin> set s \<and> strip s = s" by simp
qed

theorem load_key_eq_clean_zip_iff_witness:
  "load_key ''501'' = clean_zip ''501'' \<and> clean_zip ''501'' = ''00501'' \<and>
   load_key '' 501'' \<noteq> clean_zip '' 501''"
proof -
  have a: "CHR ''.'' \<notin> set ''501'' \<and> CHR ''-'' \<notin> set ''501'' \<and> strip ''501'' = ''501''"
    by code_simp
  have b: "\<not> (CHR ''.'' \<notin> set '' 501'' \<and> CHR ''-'' \<notin> set '' 501'' \<and> strip '' 501'' = '' 501'')"
    by code_simp
  have c: "clean_zip ''501'' = ''00501''" by code_simp
  show ?thesis
    using a b c load_key_eq_clean_zip_iff[of "''501''"] load_key_eq_clean_zip_iff[of "'' 501''"]
    by blast
qed

section \<open>Detector priority\<close>

text \<open>
  C2, as the specification states it: for the headers \<open>Billing Zip\<close>, \<open>zip code\<close>
  detection returns \<open>zip code\<close>. It does not: \<open>billing zip\<close> is itself one of the
  candidates, so the exact pass already accepts the first header.
\<close>

theorem find_zip_column_billing_zip:
  "find_zip_column [''Billing Zip'', ''zip code''] \<noteq> Some ''zip code''"
  by code_simp

text \<open>
  C2, amended: for the headers \<open>Billing Zip\<close>, \<open>zip code\<close> detection returns
  \<open>Billing Zip\<close>, an exact match that comes first in column order. Exact matching is
  preferred over earlier headers that match at most fuzzily: the first header that is
  an exact match is returned, whatever the headers before it are.
\<close>

theorem find_zip_column_exact_first:
  assumes "exact_match c" and "\<forall>x\<in>set pre. \<not> exact_match x"
  shows "find_zip_column (pre @ c # post) = Some c \<and>
         find_zip_column [''Billing Zip'', ''zip code''] = Some ''Billing Zip''"
proof -
  have "find_zip_column (pre @ c # post) = Some c"
    using assms by (simp add: find_zip_column_def find_append_first)
  moreover have "find_zip_column [''Billing Zip'', ''zip code''] = Some ''Billing Zip''"
    by code_simp
  ultimately show ?thesis by simp
qed

theorem find_zip_column_exact_first_witness:
  "exact_match ''zip code'' \<and> \<not> exact_match ''My Billing Zip'' \<and>
   fuzzy_match ''My Billing Zip'' \<and>
   find_zip_column ([''My Billing Zip''] @ ''zip code'' # []) = Some ''zip code''"
proof -
  have a: "exact_match ''zip code''" by code_simp
  have b: "\<forall>x\<in>set [''My Billing Zip'']. \<not> exact_match x" by code_simp
  have c: "fuzzy_match ''My Billing Zip''" by code_simp
  show ?thesis using a b c find_zip_column_exact_first[OF a b, of "[]"] by simp
qed

section \<open>Width of the canonical key\<close>

text \<open>
  C6, as the specification states it: the normalisation returns a 5-character string
  for every input. The input \<open>123456\<close> comes back with its 6 characters.
\<close>

theorem clean_zip_not_always_5:
  "clean_zip ''123456'' = ''123456'' \<and> length (clean_zip ''123456'') \<noteq> 5"
  by code_simp

text \<open>
  C6, amended: the normalisation is a total function of its input string (the empty
  string included) and returns a string of at least 5 characters, never a truncated
  one. With \<open>zip_core\<close> for what is left after the two cuts and the stripping: when
  5 or more characters are left they are returned as they are, so the result can be
  longer than 5; when fewer are left, zeros are added up to 5 characters, in front of
  what is left, or directly behind its first character when that is a \<open>+\<close> sign
  (\<open>+5\<close> becomes \<open>+0005\<close>, not \<open>000+5\<close>). The length of the result is the larger of
  5 and the length of what is left, and the empty string gives \<open>00000\<close>.
\<close>

theorem clean_zip_result:
  "clean_zip raw =
     (if 5 \<le> length (zip_core raw) then zip_core raw
      else if zip_core raw \<noteq> [] \<and> hd (zip_core raw) = CHR ''+''
      then CHR ''+'' # replicate (5 - length (zip_core raw)) CHR ''0'' @ tl (zip_core raw)
      else replicate (5 - length (zip_core raw)) CHR ''0'' @ zip_core raw) \<and>
   length (clean_zip raw) = max 5 (length (zip_core raw)) \<and>
   5 \<le> length (clean_zip raw) \<and>
   clean_zip [] = ''00000''"
proof -
  have c: "clean_zip raw = zfill 5 (zip_core raw)"
    by (simp add: clean_zip_def zip_core_def)
  have "CHR ''-'' \<notin> set (zip_core raw)"
    using split_first_notin[of "CHR ''-''" "split_first CHR ''.'' raw"]
      set_strip[of "split_first CHR ''-'' (split_first CHR ''.'' raw)"]
    by (auto simp: zip_core_def)
  then have nodash: "zip_core raw \<noteq> [] \<Longrightarrow> hd (zip_core raw) \<noteq> CHR ''-''"
    by (cases "zip_core raw") auto
  have shape: "zfill 5 (zip_core raw) =
     (if 5 \<le> length (zip_core raw) then zip_core raw
      else if zip_core raw \<noteq> [] \<and> hd (zip_core raw) = CHR ''+''
      then CHR ''+'' # replicate (5 - length (zip_core raw)) CHR ''0'' @ tl (zip_core raw)
      else replicate (5 - length (zip_core raw)) CHR ''0'' @ zip_core raw)"
    using nodash by (cases "zip_core raw") (auto simp: zfill_def)
  have e: "clean_zip [] = ''00000''" by code_simp
  have l: "length (clean_zip raw) = max 5 (length (zip_core raw))"
    by (simp add: c length_zfill)
  have g: "5 \<le> length (clean_zip raw)" by (rule length_clean_zip_ge)
  from shape c l g e show ?thesis by (intro conjI) (simp_all only:)
qed

theorem clean_zip_result_witness:
  "zip_core ''123456.0'' = ''123456'' \<and> clean_zip ''123456.0'' = ''123456'' \<and>
   zip_core '' +5 '' = ''+5'' \<and> clean_zip '' +5 '' = ''+0005'' \<and>
   zip_core '' 501-22'' = ''501'' \<and> clean_zip '' 501-22'' = ''00501'' \<and>
   length (clean_zip '' 501-22'') = 5"
proof -
  have a: "zip_core ''123456.0'' = ''123456''" by code_simp
  have b: "zip_core '' +5 '' = ''+5''" by code_simp
  have d: "zip_core '' 501-22'' = ''501''" by code_simp
  have ra: "clean_zip ''123456.0'' = ''123456''"
    using clean_zip_result[of "''123456.0''"] unfolding a by simp
  have rb: "clean_zip '' +5 '' = ''+0005''"
    using clean_zip_result[of "'' +5 ''"] unfolding b by (simp add: numeral_eq_Suc)
  have rd: "clean_zip '' 501-22'' = ''00501''"
    using clean_zip_result[of "'' 501-22''"] unfolding d by (simp add: numeral_eq_Suc)
  show ?thesis using a b d ra rb rd by simp
qed

section \<open>Idempotence of the normalisation\<close>

text \<open>
  C7: normalising a normalised value changes nothing,
  \<open>normalize(normalize(x)) == normalize(x)\<close> for every string \<open>x\<close>.
\<close>

theorem clean_zip_idempotent: "clean_zip (clean_zip x) = clean_zip x"
proof -
  let ?y = "clean_zip x"
  have "clean_zip ?y = zfill 5 (strip ?y)"
    by (simp add: clean_zip_def[of ?y] split_first_id clean_zip_chars)
  also have "\<dots> = zfill 5 ?y" by (simp add: strip_id clean_zip_stripped)
  also have "\<dots> = ?y" by (simp add: zfill_long length_clean_zip_ge)
  finally show ?thesis .
qed

theorem clean_zip_idempotent_witness:
  "clean_zip (clean_zip '' +90210-1234 '') = clean_zip '' +90210-1234 ''"
  by (rule clean_zip_idempotent)

section \<open>Facts about the tables and the join\<close>

lemma process_unfold:
  "process fs ex df census =
     (case find_zip_column (labels df) of
        None \<Rightarrow> Inl NoZipColumn
      | Some zc \<Rightarrow>
          (let final = final_frame fs ex df census zc in
           if select final ''Estimated household income'' = []
           then Inl (KeyError ''Estimated household income'')
           else if select final ''Median age'' = []
           then Inl (KeyError ''Median age'')
           else Inr \<lparr>final_df = final, zip_col = zc, total_rows = nrows final,
                     matched_rows = notna_sum (select final ''Estimated household income''),
                     match_rate =
                       (if nrows final > 0
                        then map_metric (\<lambda>m. of_nat m / of_nat (nrows final))
                               (notna_sum (select final ''Estimated household income''))
                        else Scalar 0)\<rparr>))"
  by (simp add: process_def final_frame_def join_keys_def Let_def split: option.splits)

lemma column_assign: "column (assign f l s) l = s"
proof (cases "l \<in> set (labels f)")
  case True
  have "map_of (map (\<lambda>(l', c). if l' = l then (l', s) else (l', c)) xs) l = Some s"
    if "l \<in> fst ` set xs" for xs :: "(string \<times> series) list"
    using that by (induction xs) auto
  with True show ?thesis by (simp add: column_def assign_def labels_def)
next
  case False
  then have "map_of (cols f) l = None" by (simp add: labels_def map_of_eq_None_iff)
  with False show ?thesis by (simp add: column_def assign_def map_add_def)
qed

lemma map_fst_replace: "map fst (map (\<lambda>(l', c). if l' = l then (l', s) else (l', c)) xs) = map fst xs"
  by (induction xs) auto

lemma labels_assign: "labels (assign f l s) = (if l \<in> set (labels f) then labels f else labels f @ [l])"
  by (auto simp: assign_def labels_def split: prod.splits)

lemma nrows_final: "nrows (final_frame fs ex df census zc) = length (left_join (join_keys fs df zc) (ref_rows ex census))"
  by (simp add: final_frame_def drop_columns_def rename_def merge_left_def Let_def column_assign)

lemma length_take_left: "length (take_left ps c) = length ps" by (simp add: take_left_def)
lemma length_take_right: "length (take_right ps f) = length ps" by (simp add: take_right_def)

lemma final_lengths: "list_all (\<lambda>(l, c). length c = nrows (final_frame fs ex df census zc)) (cols (final_frame fs ex df census zc))"
  unfolding nrows_final
  by (auto simp: final_frame_def drop_columns_def rename_def merge_left_def Let_def column_assign list_all_iff
      length_take_left length_take_right ref_labels_def)





lemma find_zip_column_mem: "find_zip_column ls = Some zc \<Longrightarrow> zc \<in> set ls"
  by (auto simp: find_zip_column_def find_Some_iff split: option.splits)

lemma length_column: "wf_frame f \<Longrightarrow> l \<in> set (labels f) \<Longrightarrow> length (column f l) = nrows f"
proof -
  assume wf: "wf_frame f" and l: "l \<in> set (labels f)"
  then obtain c where c: "map_of (cols f) l = Some c"
    by (metis labels_def map_of_eq_None_iff not_Some_eq set_map)
  then have "(l, c) \<in> set (cols f)" by (rule map_of_SomeD)
  with wf have "length c = nrows f" by (auto simp: wf_frame_def list_all_iff)
  with c show ?thesis by (simp add: column_def)
qed

lemma length_join_keys: "wf_frame df \<Longrightarrow> find_zip_column (labels df) = Some zc \<Longrightarrow> length (join_keys fs df zc) = nrows df"
  by (simp add: join_keys_def clean_zip_codes_def length_column find_zip_column_mem)

lemma left_label_not_metric:
  "l \<notin> set reserved \<Longrightarrow> final_label ref_labels ''_x'' l \<notin> set metric_cols"
  by (auto simp: final_label_def suffixed_def ref_labels_def renaming_def reserved_def metric_cols_def)

lemma join_zip_not_reserved: "''__join_zip'' \<notin> set reserved"
  by (simp add: reserved_def)

lemma labels_df1_not_reserved:
  "no_clash df \<Longrightarrow> l \<in> set (labels (assign df ''__join_zip'' s)) \<Longrightarrow> l \<notin> set reserved"
  using join_zip_not_reserved by (auto simp: labels_assign no_clash_def list_all_iff split: if_splits)

lemma select_final:
  fixes fs :: "rat \<Rightarrow> string" and ex :: bool and census :: "ref_row list" and zc :: string
  assumes nc: "no_clash df"
  defines "ps \<equiv> left_join (join_keys fs df zc) (ref_rows ex census)"
  defines "F \<equiv> final_frame fs ex df census zc"
  shows "select F ''Estimated household income'' = [take_right ps (\<lambda>r. number (median_income r))]"
    and "select F ''Median age'' = [take_right ps (\<lambda>r. number (median_age r))]"
    and "select F ''Zip population'' = [take_right ps (\<lambda>r. IntCell (population r))]"
proof -
  let ?df1 = "assign df ''__join_zip'' (join_keys fs df zc)"
  define LA where "LA = filter (\<lambda>(l, c). l \<notin> set cols_to_drop)
        (map (\<lambda>(l, c). (case map_of renaming l of Some l' \<Rightarrow> l' | None \<Rightarrow> l, c))
          (map (\<lambda>(l, c). (suffixed ref_labels ''_x'' l, take_left ps c)) (cols ?df1)))"
  define RB where "RB = filter (\<lambda>(l, c). l \<notin> set cols_to_drop)
        (map (\<lambda>(l, c). (case map_of renaming l of Some l' \<Rightarrow> l' | None \<Rightarrow> l, c))
          (map (\<lambda>(l, field). (suffixed (labels ?df1) ''_y'' l, take_right ps field))
              (zip ref_labels
                [zip_code, \<lambda>r. number (median_income r), \<lambda>r. number (median_age r),
                 \<lambda>r. IntCell (population r)])))"
  have colF: "cols F = LA @ RB"
    by (simp add: F_def final_frame_def drop_columns_def rename_def merge_left_def Let_def
        column_assign ps_def LA_def RB_def)
  have left: "filter (\<lambda>(l, c). l = X) LA = []" if X: "X \<in> set metric_cols" for X
  proof -
    have "final_label ref_labels ''_x'' l \<noteq> X" if "(l, c) \<in> set (cols ?df1)" for l c
    proof -
      from that have "l \<in> set (labels ?df1)" by (force simp: labels_def)
      from labels_df1_not_reserved[OF nc this] left_label_not_metric X
      show ?thesis by metis
    qed
    then show ?thesis by (auto simp: LA_def filter_empty_conv final_label_def)
  qed
  have nr: "''median_income'' \<notin> set (labels ?df1)" "''median_age'' \<notin> set (labels ?df1)"
    "''population'' \<notin> set (labels ?df1)"
    using labels_df1_not_reserved[OF nc, of _ "join_keys fs df zc"] by (auto simp: reserved_def)
  have right: "map snd (filter (\<lambda>(l, c). l = ''Estimated household income'') RB)
        = [take_right ps (\<lambda>r. number (median_income r))]"
      "map snd (filter (\<lambda>(l, c). l = ''Median age'') RB)
        = [take_right ps (\<lambda>r. number (median_age r))]"
      "map snd (filter (\<lambda>(l, c). l = ''Zip population'') RB)
        = [take_right ps (\<lambda>r. IntCell (population r))]"
    using nr by (simp_all add: RB_def ref_labels_def suffixed_def renaming_def cols_to_drop_def)
  show "select F ''Estimated household income'' = [take_right ps (\<lambda>r. number (median_income r))]"
    by (simp add: select_def colF left right metric_cols_def)
  show "select F ''Median age'' = [take_right ps (\<lambda>r. number (median_age r))]"
    by (simp add: select_def colF left right metric_cols_def)
  show "select F ''Zip population'' = [take_right ps (\<lambda>r. IntCell (population r))]"
    by (simp add: select_def colF left right metric_cols_def)
qed


lemma process_no_clash:
  assumes zc: "find_zip_column (labels df) = Some zc" and nc: "no_clash df"
  shows "process fs ex df census =
     Inr \<lparr>final_df = final_frame fs ex df census zc, zip_col = zc,
          total_rows = nrows (final_frame fs ex df census zc),
          matched_rows = Scalar (length (filter notna
             (take_right (left_join (join_keys fs df zc) (ref_rows ex census)) (\<lambda>r. number (median_income r))))),
          match_rate =
            (if nrows (final_frame fs ex df census zc) > 0
             then Scalar (of_nat (length (filter notna
                (take_right (left_join (join_keys fs df zc) (ref_rows ex census)) (\<lambda>r. number (median_income r)))))
                  / of_nat (nrows (final_frame fs ex df census zc)))
             else Scalar 0)\<rparr>"
  by (simp add: process_unfold zc Let_def select_final[OF nc] notna_sum_def)












lemma left_join_Nil: "left_join [] ref = []"
  by (simp add: left_join_def)





section \<open>Join cardinality\<close>



section \<open>Matched rows and match rate\<close>




section \<open>Population floor\<close>



section \<open>Empty input\<close>

text \<open>
  C9 fails when a header of the input is a label of the reference table that the
  program renames. For the headers \<open>zip\<close>, \<open>median_income\<close> and no rows, the join
  suffixes both \<open>median_income\<close> columns, the renaming finds none of them, and the
  selection \<open>final_df['Estimated household income']\<close> raises \<open>KeyError\<close>: the
  empty table ends in an error. (With the header \<open>zip_code\<close> and no rows the
  processing phase returns its result and the reordering of the display phase raises
  \<open>KeyError\<close>.)
\<close>

theorem empty_input_fails_on_reserved_header:
  "find_zip_column [''zip'', ''median_income''] = Some ''zip'' \<and>
   labels (final_frame example_float_str True
             \<lparr>nrows = 0, cols = [(''zip'', []), (''median_income'', [])]\<rparr> example_census ''zip'') =
     [''zip'', ''median_income_x'', ''median_income_y'', ''Median age'', ''Zip population''] \<and>
   process example_float_str True
     \<lparr>nrows = 0, cols = [(''zip'', []), (''median_income'', [])]\<rparr> example_census =
     Inl (KeyError ''Estimated household income'') \<and>
   enrich example_float_str True \<lparr>nrows = 0, cols = [(''zip_code'', [])]\<rparr> example_census =
     Inl (KeyError ''zip_code'')"
  by code_simp

theorem empty_input_fails_on_reserved_header_witness:
  "process example_float_str True
     \<lparr>nrows = 0, cols = [(''zip'', []), (''median_income'', [])]\<rparr> example_census =
     Inl (KeyError ''Estimated household income'')"
  using empty_input_fails_on_reserved_header by blast

text \<open>
  Apart from such headers an empty table is handled as the specification says: with
  no rows, a detectable ZIP header and no header that is a reserved label, the
  processing phase returns a result with \<open>total_rows = 0\<close>, \<open>match_rate = 0\<close> and an
  enriched table without rows.
\<close>

theorem empty_input:
  assumes wf: "wf_frame df" and e: "nrows df = 0"
    and zc: "find_zip_column (labels df) = Some zc" and nc: "no_clash df"
  shows "\<exists>res. process float_str exclude_low_pop df census_df = Inr res \<and>
      total_rows res = 0 \<and> matched_rows res = Scalar 0 \<and> match_rate res = Scalar 0 \<and>
      nrows (final_df res) = 0 \<and> list_all (\<lambda>(l, c). c = []) (cols (final_df res))"
proof -
  have "length (join_keys float_str df zc) = 0" using length_join_keys[OF wf zc] e by simp
  then have ks: "join_keys float_str df zc = []" by simp
  have n: "nrows (final_frame float_str exclude_low_pop df census_df zc) = 0"
    by (simp add: nrows_final ks left_join_Nil)
  have "list_all (\<lambda>(l, c). c = []) (cols (final_frame float_str exclude_low_pop df census_df zc))"
    using final_lengths[of float_str exclude_low_pop df census_df zc] by (simp add: n)
  then show ?thesis
    by (simp add: process_no_clash[OF zc nc] n ks left_join_Nil take_right_def)
qed

theorem empty_input_witness:
  "wf_frame example_empty \<and> nrows example_empty = 0 \<and>
   find_zip_column (labels example_empty) = Some ''zip'' \<and> no_clash example_empty \<and>
   (case process example_float_str True example_empty example_census of
      Inl e \<Rightarrow> False
    | Inr res \<Rightarrow> total_rows res = 0 \<and> match_rate res = Scalar 0 \<and> nrows (final_df res) = 0 \<and>
        labels (final_df res) =
          [''customer_id'', ''email'', ''zip'', ''Estimated household income'', ''Median age'',
           ''Zip population''])"
proof -
  have wf: "wf_frame example_empty" by code_simp
  have e: "nrows example_empty = 0" by code_simp
  have zc: "find_zip_column (labels example_empty) = Some ''zip''" by code_simp
  have nc: "no_clash example_empty" by code_simp
  have l: "case process example_float_str True example_empty example_census of
      Inl e \<Rightarrow> False
    | Inr res \<Rightarrow> labels (final_df res) =
          [''customer_id'', ''email'', ''zip'', ''Estimated household income'', ''Median age'',
           ''Zip population'']"
    by code_simp
  from empty_input[OF wf e zc nc, of example_float_str True example_census]
  obtain res where "process example_float_str True example_empty example_census = Inr res"
    "total_rows res = 0" "match_rate res = Scalar 0" "nrows (final_df res) = 0"
    by blast
  then show ?thesis using wf e zc nc l by simp
qed

section \<open>Missing ZIP values\<close>



section \<open>Column order\<close>

text \<open>
  C5 fails on the header the program's own instructions ask for. With the input header
  \<open>zip_code\<close> the join suffixes the input column and the reference key, which share
  the label, to \<open>zip_code_x\<close> and \<open>zip_code_y\<close>. The reference key is then not
  dropped and stays in the enriched table, no column is called \<open>zip_code\<close> any more,
  and the reordering \<open>final_df[display_order]\<close> raises \<open>KeyError\<close>.
\<close>

theorem display_fails_on_zip_code_header:
  "find_zip_column [''zip_code'', ''email''] = Some ''zip_code'' \<and>
   (case process example_float_str True
          \<lparr>nrows = 1, cols = [(''zip_code'', [Str ''90210'']), (''email'', [Str ''a@x.org''])]\<rparr>
          example_census of
      Inl e \<Rightarrow> False
    | Inr res \<Rightarrow>
        labels (final_df res) =
          [''zip_code_x'', ''email'', ''zip_code_y'', ''Estimated household income'',
           ''Median age'', ''Zip population''] \<and>
        display res = Inl (KeyError ''zip_code'')) \<and>
   enrich example_float_str True
      \<lparr>nrows = 1, cols = [(''zip_code'', [Str ''90210'']), (''email'', [Str ''a@x.org''])]\<rparr>
      example_census = Inl (KeyError ''zip_code'')"
  by code_simp

theorem display_fails_on_zip_code_header_witness:
  "enrich example_float_str True
      \<lparr>nrows = 1, cols = [(''zip_code'', [Str ''90210'']), (''email'', [Str ''a@x.org''])]\<rparr>
      example_census = Inl (KeyError ''zip_code'')"
  using display_fails_on_zip_code_header by blast

lemma labels_rename:
  "labels (rename m f) = map (\<lambda>l. case map_of m l of Some l' \<Rightarrow> l' | None \<Rightarrow> l) (labels f)"
  by (simp add: labels_def rename_def comp_def split_def)

lemma labels_drop_columns:
  "labels (drop_columns ds f) = filter (\<lambda>l. l \<notin> set ds) (labels f)"
  by (simp add: labels_def drop_columns_def filter_map comp_def split_def)

lemma labels_merge_left:
  "labels (merge_left left ref on) =
     map (suffixed ref_labels ''_x'') (labels left) @ map (suffixed (labels left) ''_y'') ref_labels"
  by (simp add: labels_def merge_left_def Let_def comp_def split_def ref_labels_def)

lemma labels_final_frame:
  assumes nc: "no_clash df"
    and z: "''zip_code'' \<notin> set (labels df)" and j: "''__join_zip'' \<notin> set (labels df)"
  shows "labels (final_frame fs ex df census zc) = labels df @ metric_cols"
proof -
  let ?L1 = "labels df @ [''__join_zip'']"
  have res: "l \<notin> set reserved" if "l \<in> set (labels df)" for l
    using nc that by (auto simp: no_clash_def list_all_iff)
  have l1: "labels (assign df ''__join_zip'' (join_keys fs df zc)) = ?L1"
    using j by (simp add: labels_assign)
  have notref: "l \<notin> set ref_labels" if "l \<in> set ?L1" for l
    using that res[of l] z by (auto simp: ref_labels_def reserved_def)
  have sx: "map (suffixed ref_labels ''_x'') ?L1 = ?L1"
    using notref by (intro map_idI) (simp add: suffixed_def)
  have sy: "map (suffixed ?L1 ''_y'') ref_labels = ref_labels"
    using notref by (intro map_idI) (auto simp: suffixed_def)
  have ren: "map (\<lambda>l. case map_of renaming l of Some l' \<Rightarrow> l' | None \<Rightarrow> l) (labels df) = labels df"
  proof (intro map_idI)
    fix l assume "l \<in> set (labels df)"
    from res[OF this] have "map_of renaming l = None"
      by (auto simp: renaming_def reserved_def)
    then show "(case map_of renaming l of Some l' \<Rightarrow> l' | None \<Rightarrow> l) = l" by simp
  qed
  have keep: "filter (\<lambda>l. l \<notin> set cols_to_drop) (labels df) = labels df"
    using z j by (auto simp: cols_to_drop_def filter_id_conv)
  show ?thesis
    unfolding final_frame_def labels_drop_columns labels_rename labels_merge_left l1 sx sy
    by (simp add: ren keep)
      (simp add: renaming_def ref_labels_def cols_to_drop_def metric_cols_def)
qed

lemma filter_eq_distinct: "distinct xs \<Longrightarrow> l \<in> set xs \<Longrightarrow> filter (\<lambda>x. x = l) xs = [l]"
  by (induction xs) (auto simp: filter_empty_conv)

lemma labels_reindex:
  assumes "distinct (labels f)" and "set ls \<subseteq> set (labels f)"
  shows "\<exists>g. reindex f ls = Inr g \<and> labels g = ls \<and> nrows g = nrows f"
proof -
  have none: "find (\<lambda>l. l \<notin> set (labels f)) ls = None"
    using assms(2) by (auto simp: find_None_iff)
  have one: "map fst (filter (\<lambda>(l', c). l' = l) (cols f)) = [l]" if "l \<in> set (labels f)" for l
  proof -
    have "map fst (filter (\<lambda>(l', c). l' = l) (cols f)) = filter (\<lambda>x. x = l) (map fst (cols f))"
      by (simp add: filter_map comp_def split_def)
    then show ?thesis using filter_eq_distinct[OF assms(1) that] by (simp add: labels_def)
  qed
  have "concat (map (\<lambda>l. map fst (filter (\<lambda>(l', c). l' = l) (cols f))) ls) = ls"
    using assms(2)
  proof (induction ls)
    case Nil
    then show ?case by simp
  next
    case (Cons a ls)
    then show ?case by (simp add: one)
  qed
  then have "labels (f\<lparr>cols := concat (map (\<lambda>l. filter (\<lambda>(l', c). l' = l) (cols f)) ls)\<rparr>) = ls"
    by (simp add: labels_def map_concat comp_def)
  moreover have "reindex f ls
      = Inr (f\<lparr>cols := concat (map (\<lambda>l. filter (\<lambda>(l', c). l' = l) (cols f)) ls)\<rparr>)"
    by (simp add: reindex_def none)
  ultimately show ?thesis by simp
qed

lemma display_order_plain:
  assumes "zc \<in> set ls" and "list_all (\<lambda>l. l \<notin> set reserved) ls"
  shows "display_order zc (ls @ metric_cols) = zc # metric_cols @ remove1 zc ls"
proof -
  have m: "''Estimated household income'' \<notin> set ls" "''Median age'' \<notin> set ls"
    "''Zip population'' \<notin> set ls"
    using assms(2) by (auto simp: list_all_iff reserved_def)
  show ?thesis
    using m assms(1) by (simp add: display_order_def metric_cols_def remove1_append)
qed

text \<open>
  The order the specification describes is the one the program produces whenever the
  input headers are pairwise distinct and none of them is a label of the reference
  table, a label the program gives to a demographic field, or the working key
  \<open>__join_zip\<close>: the detected ZIP column, the three demographic fields, then the
  other input columns in their order; neither key column is left.
\<close>

theorem enrich_order_no_clash:
  assumes zc: "find_zip_column (labels df) = Some zc" and nc: "no_clash df"
    and dist: "distinct (labels df)"
    and z: "''zip_code'' \<notin> set (labels df)" and j: "''__join_zip'' \<notin> set (labels df)"
  shows "\<exists>out. enrich fs ex df census = Inr out \<and>
            labels out = zc # metric_cols @ remove1 zc (labels df)"
proof -
  let ?F = "final_frame fs ex df census zc"
  have lf: "labels ?F = labels df @ metric_cols" by (rule labels_final_frame[OF nc z j])
  have zin: "zc \<in> set (labels df)" by (rule find_zip_column_mem[OF zc])
  have m: "''Estimated household income'' \<notin> set (labels df)" "''Median age'' \<notin> set (labels df)"
    "''Zip population'' \<notin> set (labels df)"
    using nc by (auto simp: no_clash_def list_all_iff reserved_def)
  have dF: "distinct (labels ?F)" using dist m by (simp add: lf metric_cols_def)
  have ord: "display_order zc (labels ?F) = zc # metric_cols @ remove1 zc (labels df)"
    unfolding lf using display_order_plain[OF zin] nc by (simp add: no_clash_def)
  have sub: "set (zc # metric_cols @ remove1 zc (labels df)) \<subseteq> set (labels ?F)"
    using zin set_remove1_subset[of zc "labels df"] by (auto simp: lf)
  from labels_reindex[OF dF sub] obtain out where
    out: "reindex ?F (zc # metric_cols @ remove1 zc (labels df)) = Inr out"
      "labels out = zc # metric_cols @ remove1 zc (labels df)"
    by blast
  have "enrich fs ex df census = Inr out"
    by (simp add: enrich_def process_no_clash[OF zc nc] display_def select_final[OF nc] ord out)
  with out show ?thesis by simp
qed

theorem enrich_order_no_clash_witness:
  "find_zip_column (labels example_input) = Some ''zip'' \<and> no_clash example_input \<and>
   distinct (labels example_input) \<and>
   (case enrich example_float_str True example_input example_census of
      Inl e \<Rightarrow> False
    | Inr out \<Rightarrow>
        labels out =
          [''zip'', ''Estimated household income'', ''Median age'', ''Zip population'',
           ''customer_id'', ''email''])"
proof -
  have zc: "find_zip_column (labels example_input) = Some ''zip''" by code_simp
  have nc: "no_clash example_input" by code_simp
  have dist: "distinct (labels example_input)" by code_simp
  have z: "''zip_code'' \<notin> set (labels example_input)" by code_simp
  have j: "''__join_zip'' \<notin> set (labels example_input)" by code_simp
  have l: "''zip'' # metric_cols @ remove1 ''zip'' (labels example_input) =
      [''zip'', ''Estimated household income'', ''Median age'', ''Zip population'',
       ''customer_id'', ''email'']"
    by code_simp
  from enrich_order_no_clash[OF zc nc dist z j, of example_float_str True example_census]
  obtain out where "enrich example_float_str True example_input example_census = Inr out"
    "labels out = ''zip'' # metric_cols @ remove1 ''zip'' (labels example_input)"
    by blast
  then show ?thesis using zc nc dist by (simp add: l)
qed

end
